theory Spec2Isabelle
  imports Complex_Main
begin

section \<open>JavaScript values\<close>

text \<open>
  The SDK is dynamically typed: every configuration, every parameter object and every
  parsed response is a JavaScript value, and every presence check of the source is a
  truthiness test (\<open>!x\<close>, \<open>x || d\<close>). The values below are the plain data values:
  what an object literal of data or \<open>JSON.parse\<close> yields.

  A number is a double. Only its truthiness is ever inspected, so a finite number is
  kept as a rational (both zeros of a double are \<open>Finite 0\<close>: both are falsy).
\<close>

datatype jsnumber = NaN | PosInfinity | NegInfinity | Finite rat

datatype jsval =
    JUndefined
  | JNull
  | JBool bool
  | JNumber jsnumber
  | JString string
  | JArray "jsval list"
  | JObject "(string \<times> jsval) list"

text \<open>ToBoolean: \<open>undefined\<close>, \<open>null\<close>, \<open>false\<close>, \<open>0\<close>, \<open>NaN\<close> and \<open>""\<close> are falsy.\<close>

fun truthy :: "jsval \<Rightarrow> bool" where
  "truthy JUndefined = False"
| "truthy JNull = False"
| "truthy (JBool b) = b"
| "truthy (JNumber n) = (n \<noteq> NaN \<and> n \<noteq> Finite 0)"
| "truthy (JString s) = (s \<noteq> [])"
| "truthy (JArray xs) = True"
| "truthy (JObject kvs) = True"

text \<open>The operators \<open>!x\<close> and \<open>x || d\<close>.\<close>

definition js_not :: "jsval \<Rightarrow> bool" where
  "js_not v = (\<not> truthy v)"

definition js_or :: "jsval \<Rightarrow> jsval \<Rightarrow> jsval" where
  "js_or v d = (if truthy v then v else d)"

text \<open>
  Reading a property. On \<open>undefined\<close> and \<open>null\<close> the read throws a TypeError
  (\<open>nullish\<close>); on an object it yields the property's value, \<open>undefined\<close> when the
  object has none of that name (the first binding of a name in the list is the
  object's property). On any other value it yields \<open>undefined\<close>: that is exact for
  the names this program reads (apiKey, baseUrl, timeout, uetr, ref, amount, date,
  currency, status, role, beneficiary_bic, swift, message, errors), none of which a
  string, number, boolean or array has.
\<close>

definition nullish :: "jsval \<Rightarrow> bool" where
  "nullish v = (v = JUndefined \<or> v = JNull)"

fun field :: "jsval \<Rightarrow> string \<Rightarrow> jsval" where
  "field (JObject kvs) k = (case map_of kvs k of None \<Rightarrow> JUndefined | Some v \<Rightarrow> v)"
| "field v k = JUndefined"

section \<open>Errors\<close>

text \<open>
  \<open>OhmyfinError\<close> is the exported error class: \<open>message\<close>, \<open>statusCode\<close>,
  \<open>errors\<close>. \<open>Error\<close> is the built-in class the constructor and the four operations
  throw, \<open>TypeError\<close> what the runtime throws (a property read on \<open>undefined\<close> or
  \<open>null\<close>, an invalid URL), \<open>TransportError\<close> the error object the transport hands
  to the request's \<open>'error'\<close> listeners.
\<close>

record OhmyfinError_fields =
  message :: string
  statusCode :: int
  errors :: jsval

datatype js_error =
    Error string
  | TypeError
  | OhmyfinError OhmyfinError_fields
  | TransportError string

definition OhmyfinError_new :: "string \<Rightarrow> int \<Rightarrow> jsval \<Rightarrow> js_error" where
  "OhmyfinError_new msg sc errs = OhmyfinError \<lparr>message = msg, statusCode = sc, errors = errs\<rparr>"

fun is_OhmyfinError :: "js_error \<Rightarrow> bool" where
  "is_OhmyfinError (OhmyfinError e) = True"
| "is_OhmyfinError e = False"

section \<open>The client and its constructor\<close>

record Ohmyfin =
  apiKey :: jsval
  baseUrl :: jsval
  timeout :: jsval

text \<open>
  \<^verbatim>\<open>
  constructor(config) {
    if (!config || !config.apiKey) {
      throw new Error('API key is required. Get your API key at https://ohmyfin.ai');
    }
    this.apiKey = config.apiKey;
    this.baseUrl = config.baseUrl || 'https://ohmyfin.ai';
    this.timeout = config.timeout || 30000;
  }
  \<close>
  A truthy \<open>config\<close> is neither \<open>undefined\<close> nor \<open>null\<close>, so no property read of the
  constructor throws. The constructor is a function of the configuration alone: it
  calls nothing but the property reads.
\<close>

definition constructor :: "jsval \<Rightarrow> js_error + Ohmyfin" where
  "constructor config =
     (if js_not config \<or> js_not (field config ''apiKey'')
      then Inl (Error ''API key is required. Get your API key at https://ohmyfin.ai'')
      else Inr \<lparr>apiKey = field config ''apiKey'',
                baseUrl = js_or (field config ''baseUrl'') (JString ''https://ohmyfin.ai''),
                timeout = js_or (field config ''timeout'') (JNumber (Finite 30000))\<rparr>)"

text \<open>
  The declared type of the credential (\<open>apiKey: string\<close> in the type declarations):
  a configuration is well typed when its credential, if it has one, is a string.
\<close>

definition is_string :: "jsval \<Rightarrow> bool" where
  "is_string v = (case v of JString s \<Rightarrow> True | _ \<Rightarrow> False)"

definition credential_typed :: "jsval \<Rightarrow> bool" where
  "credential_typed config =
     (field config ''apiKey'' = JUndefined \<or> is_string (field config ''apiKey''))"

text \<open>The credential is missing (no configuration, or none in it) or the empty string.\<close>

definition credential_missing_or_empty :: "jsval \<Rightarrow> bool" where
  "credential_missing_or_empty config =
     (nullish config \<or> field config ''apiKey'' = JUndefined \<or> field config ''apiKey'' = JString [])"

section \<open>The runtime's built-ins\<close>

text \<open>
  The source calls five built-ins whose code is the runtime's, not the SDK's. They are
  parameters of the model, with their failures as \<open>None\<close>:
  \<^item> \<open>JSON.parse(body)\<close>, which throws a SyntaxError on a body that is not JSON;
  \<^item> \<open>JSON.stringify(data)\<close>;
  \<^item> \<open>String(v)\<close> on a value that is not a string, as the built-in \<open>Error\<close>
    applies it to its message (it throws on an object that cannot be converted);
  \<^item> \<open>new URL(path, base)\<close>, which throws a TypeError on an invalid base;
  \<^item> the conversion of a \<open>Buffer\<close> to a string, which \<open>body += chunk\<close> applies to
    each chunk of the response on its own: the bytes are decoded as UTF-8, and bytes
    that are not a complete character become the replacement character U+FFFD.

  A \<open>Buffer\<close> is the list of its bytes. A string is kept as the UTF-8 bytes of its
  text, so a text of ASCII characters is the list of its characters.
\<close>

record url =
  protocol :: string
  hostname :: string
  port :: string
  pathname :: string
  search :: string

record runtime =
  JSON_parse :: "string \<Rightarrow> jsval option"
  JSON_stringify :: "jsval \<Rightarrow> string"
  ToString :: "jsval \<Rightarrow> string option"
  URL_new :: "string \<Rightarrow> jsval \<Rightarrow> url option"
  Buffer_toString :: "string \<Rightarrow> string"

text \<open>
  \<open>super(message)\<close> in \<open>OhmyfinError\<close>: the built-in \<open>Error\<close> stores
  \<open>String(message)\<close>, which is the message itself when it is a string, and the empty
  message of the prototype when the argument is \<open>undefined\<close>.
\<close>

definition Error_message :: "runtime \<Rightarrow> jsval \<Rightarrow> string option" where
  "Error_message rt v =
     (case v of JString s \<Rightarrow> Some s | JUndefined \<Rightarrow> Some [] | _ \<Rightarrow> ToString rt v)"

section \<open>The request dispatcher\<close>

text \<open>
  What \<open>_request\<close> hands to the transport: the library chosen by the scheme, the
  options of \<open>lib.request\<close>, and the body written before \<open>req.end()\<close>.
\<close>

datatype transport_lib = https | http

record request_options =
  opt_hostname :: string
  opt_port :: jsval
  opt_path :: string
  opt_method :: string
  opt_headers :: "(string \<times> jsval) list"
  opt_timeout :: jsval

record wire_request =
  lib :: transport_lib
  options :: request_options
  written :: "string option"

text \<open>
  What the transport does to the request afterwards, in the order it does it: the
  response callback with a status code, \<open>'data'\<close> (with a \<open>Buffer\<close> of bytes: the
  source sets no encoding on the response) and \<open>'end'\<close> of the response, \<open>'error'\<close>
  and \<open>'timeout'\<close> of the request.
\<close>

datatype event = Response int | Data string | End | ErrorEvent js_error | Timeout

text \<open>The promise: \<open>resolve\<close> and \<open>reject\<close> settle it once; later calls do nothing.\<close>

datatype promise = Pending | Resolved jsval | Rejected js_error

definition resolve :: "jsval \<Rightarrow> promise \<Rightarrow> promise" where
  "resolve v p = (case p of Pending \<Rightarrow> Resolved v | _ \<Rightarrow> p)"

definition reject :: "js_error \<Rightarrow> promise \<Rightarrow> promise" where
  "reject e p = (case p of Pending \<Rightarrow> Rejected e | _ \<Rightarrow> p)"

text \<open>
  \<^verbatim>\<open>
  res.on('end', () => {
    try {
      const json = JSON.parse(body);
      if (res.statusCode >= 400) {
        reject(new OhmyfinError(json.message || 'API request failed', res.statusCode, json.errors));
      } else {
        resolve(json);
      }
    } catch (e) {
      reject(new OhmyfinError('Invalid JSON response', res.statusCode));
    }
  });
  \<close>
  \<open>api_error\<close> is the argument of the first \<open>reject\<close>, \<open>None\<close> when building it
  throws: \<open>json.message\<close> on \<open>null\<close>, or the conversion of the message to a string.
  Whatever is thrown inside \<open>try\<close> lands in the one \<open>catch\<close>.
\<close>

definition api_error :: "runtime \<Rightarrow> jsval \<Rightarrow> int \<Rightarrow> js_error option" where
  "api_error rt json sc =
     (if nullish json then None
      else case Error_message rt (js_or (field json ''message'') (JString ''API request failed'')) of
             None \<Rightarrow> None
           | Some msg \<Rightarrow> Some (OhmyfinError_new msg sc (field json ''errors'')))"

definition on_end :: "runtime \<Rightarrow> int \<Rightarrow> string \<Rightarrow> promise \<Rightarrow> promise" where
  "on_end rt sc body p =
     (case JSON_parse rt body of
        None \<Rightarrow> reject (OhmyfinError_new ''Invalid JSON response'' sc JUndefined) p
      | Some json \<Rightarrow>
          if sc \<ge> 400 then
            (case api_error rt json sc of
               None \<Rightarrow> reject (OhmyfinError_new ''Invalid JSON response'' sc JUndefined) p
             | Some e \<Rightarrow> reject e p)
          else resolve json p)"

text \<open>
  The state of one request: the promise, the response received so far (its status
  code and the \<open>body\<close> accumulated by the \<open>'data'\<close> listener; \<open>None\<close> before the
  response callback, when no \<open>'data'\<close> or \<open>'end'\<close> listener exists), and whether
  \<open>req.destroy()\<close> has been called.

  \<^verbatim>\<open>res.on('data', chunk => body += chunk)\<close> converts each chunk to a string by
  itself and appends the result.
\<close>

record request_state =
  promise_of :: promise
  res :: "(int \<times> string) option"
  destroyed :: bool

fun handle :: "runtime \<Rightarrow> request_state \<Rightarrow> event \<Rightarrow> request_state" where
  "handle rt s (Response sc) = s\<lparr>res := Some (sc, [])\<rparr>"
| "handle rt s (Data chunk) =
     (case res s of None \<Rightarrow> s
      | Some (sc, body) \<Rightarrow> s\<lparr>res := Some (sc, body @ Buffer_toString rt chunk)\<rparr>)"
| "handle rt s End =
     (case res s of None \<Rightarrow> s
      | Some (sc, body) \<Rightarrow> s\<lparr>promise_of := on_end rt sc body (promise_of s)\<rparr>)"
| "handle rt s (ErrorEvent e) = s\<lparr>promise_of := reject e (promise_of s)\<rparr>"
| "handle rt s Timeout =
     s\<lparr>destroyed := True,
       promise_of := reject (OhmyfinError_new ''Request timeout'' 408 JUndefined) (promise_of s)\<rparr>"

text \<open>
  What a call leaves behind: the promise it returned, the requests it handed to the
  transport, and whether it destroyed its request.
\<close>

record request_result =
  settled :: promise
  issued :: "wire_request list"
  aborted :: bool

text \<open>
  \<open>_request(method, path, data)\<close>. An exception of the executor (the URL) rejects the
  promise before anything reaches the transport.
\<close>

definition request ::
  "runtime \<Rightarrow> Ohmyfin \<Rightarrow> string \<Rightarrow> string \<Rightarrow> jsval \<Rightarrow> event list \<Rightarrow> request_result" where
  "request rt self meth path data events =
     (case URL_new rt path (baseUrl self) of
        None \<Rightarrow> \<lparr>settled = Rejected TypeError, issued = [], aborted = False\<rparr>
      | Some url \<Rightarrow>
          let isHttps = (protocol url = ''https:'');
              opts = \<lparr>opt_hostname = hostname url,
                      opt_port = js_or (JString (port url))
                                   (JNumber (Finite (if isHttps then 443 else 80))),
                      opt_path = pathname url @ search url,
                      opt_method = meth,
                      opt_headers = [(''KEY'', apiKey self),
                                     (''Content-Type'', JString ''application/json''),
                                     (''Accept'', JString ''application/json''),
                                     (''User-Agent'', JString ''ohmyfin-node/1.0.0'')],
                      opt_timeout = timeout self\<rparr>;
              req = \<lparr>lib = (if isHttps then https else http),
                     options = opts,
                     written = (if truthy data then Some (JSON_stringify rt data) else None)\<rparr>;
              final = foldl (handle rt)
                        \<lparr>promise_of = Pending, res = None, destroyed = False\<rparr> events
          in \<lparr>settled = promise_of final, issued = [req], aborted = destroyed final\<rparr>)"

section \<open>The four operations\<close>

text \<open>
  An \<open>async\<close> method that throws returns a rejected promise and has issued nothing.
  The first property read of each method throws a TypeError when \<open>params\<close> is
  \<open>undefined\<close> or \<open>null\<close>.
\<close>

definition throw :: "js_error \<Rightarrow> request_result" where
  "throw e = \<lparr>settled = Rejected e, issued = [], aborted = False\<rparr>"

definition track :: "runtime \<Rightarrow> Ohmyfin \<Rightarrow> jsval \<Rightarrow> event list \<Rightarrow> request_result" where
  "track rt self params events =
     (if nullish params then throw TypeError
      else if js_not (field params ''uetr'') \<and> js_not (field params ''ref'')
      then throw (Error ''Either uetr or ref is required'')
      else if js_not (field params ''amount'') \<or> js_not (field params ''date'')
              \<or> js_not (field params ''currency'')
      then throw (Error ''amount, date, and currency are required'')
      else request rt self ''POST'' ''/api/track'' params events)"

definition change :: "runtime \<Rightarrow> Ohmyfin \<Rightarrow> jsval \<Rightarrow> event list \<Rightarrow> request_result" where
  "change rt self params events =
     (if nullish params then throw TypeError
      else if js_not (field params ''uetr'') \<and> js_not (field params ''ref'')
      then throw (Error ''Either uetr or ref is required'')
      else if js_not (field params ''status'') \<or> js_not (field params ''role'')
      then throw (Error ''status and role are required'')
      else request rt self ''POST'' ''/api/change'' params events)"

definition validate :: "runtime \<Rightarrow> Ohmyfin \<Rightarrow> jsval \<Rightarrow> event list \<Rightarrow> request_result" where
  "validate rt self params events =
     (if nullish params then throw TypeError
      else if js_not (field params ''beneficiary_bic'') \<or> js_not (field params ''currency'')
      then throw (Error ''beneficiary_bic and currency are required'')
      else request rt self ''POST'' ''/api/validate'' params events)"

definition getSSI :: "runtime \<Rightarrow> Ohmyfin \<Rightarrow> jsval \<Rightarrow> event list \<Rightarrow> request_result" where
  "getSSI rt self params events =
     (if nullish params then throw TypeError
      else if js_not (field params ''swift'') \<or> js_not (field params ''currency'')
      then throw (Error ''swift and currency are required'')
      else request rt self ''POST'' ''/api/getssi'' params events)"

definition operations ::
  "(runtime \<Rightarrow> Ohmyfin \<Rightarrow> jsval \<Rightarrow> event list \<Rightarrow> request_result) set" where
  "operations = {track, change, validate, getSSI}"

section \<open>Vocabulary of the properties\<close>

text \<open>
  A local validation failure: the promise is rejected with a plain \<open>Error\<close>, which is
  not an \<open>OhmyfinError\<close>, and nothing was handed to the transport.
\<close>

definition fails_locally :: "request_result \<Rightarrow> bool" where
  "fails_locally r =
     (issued r = [] \<and> (case settled r of Rejected (Error m) \<Rightarrow> True | _ \<Rightarrow> False))"

text \<open>A field the caller left out of the parameter object.\<close>

definition absent :: "jsval \<Rightarrow> string \<Rightarrow> bool" where
  "absent params k = (field params k = JUndefined)"

text \<open>Events that leave the response incomplete: its head and pieces of its body.\<close>

fun in_flight :: "event \<Rightarrow> bool" where
  "in_flight (Response sc) = True"
| "in_flight (Data chunk) = True"
| "in_flight e = False"

text \<open>
  The transport of a completed response: the callback, the chunks of the body, the
  end; whatever follows comes after the response is complete.
\<close>

definition responds :: "int \<Rightarrow> string list \<Rightarrow> event list \<Rightarrow> event list" where
  "responds sc chunks rest = Response sc # map Data chunks @ End # rest"

text \<open>
  The text the \<open>'data'\<close> listener accumulates from the chunks of a body, and the text
  of the body itself. They are the same when no character of the body is cut by a
  chunk boundary (\<open>whole\<close>).
\<close>

definition accumulated :: "runtime \<Rightarrow> string list \<Rightarrow> string" where
  "accumulated rt chunks = concat (map (Buffer_toString rt) chunks)"

definition body_text :: "runtime \<Rightarrow> string list \<Rightarrow> string" where
  "body_text rt chunks = Buffer_toString rt (concat chunks)"

definition whole :: "runtime \<Rightarrow> string list \<Rightarrow> bool" where
  "whole rt chunks = (accumulated rt chunks = body_text rt chunks)"

section \<open>The transport's timer\<close>





section \<open>Examples\<close>

text \<open>
  A runtime for the closed examples, as a test would stub it: it parses exactly the
  listed bodies, resolves paths against the default base address only, and converts
  a chunk of ASCII bytes to the text of the same characters.
\<close>

definition stub_runtime :: "(string \<times> jsval) list \<Rightarrow> runtime" where
  "stub_runtime bodies =
     \<lparr>JSON_parse = map_of bodies,
      JSON_stringify = (\<lambda>v. []),
      ToString = (\<lambda>v. None),
      URL_new = (\<lambda>path base.
        if base = JString ''https://ohmyfin.ai''
        then Some \<lparr>protocol = ''https:'', hostname = ''ohmyfin.ai'', port = [],
                   pathname = path, search = []\<rparr>
        else None),
      Buffer_toString = (\<lambda>bytes. bytes)\<rparr>"

definition default_client :: Ohmyfin where
  "default_client = \<lparr>apiKey = JString ''k'', baseUrl = JString ''https://ohmyfin.ai'',
                      timeout = JNumber (Finite 30000)\<rparr>"

text \<open>
  The call and the response of the SDK's tracking example: the parameter object, the
  body the server answers with, and the value that body parses to.
\<close>

definition example_params :: jsval where
  "example_params =
     JObject [(''uetr'', JString ''97ed4827-7b6f-4491-a06f-b548d5a7512d''),
              (''amount'', JNumber (Finite 10000)),
              (''date'', JString ''2024-01-15''),
              (''currency'', JString ''USD'')]"

definition example_body :: string where
  \<open>example_body =
     ''{"status":"success","lastupdate":"2024-01-15","details":[],"limits":{"daily":100,"monthly":1000,"annual":10000}}''\<close>

definition example_payload :: jsval where
  "example_payload =
     JObject [(''status'', JString ''success''),
              (''lastupdate'', JString ''2024-01-15''),
              (''details'', JArray []),
              (''limits'', JObject [(''daily'', JNumber (Finite 100)),
                                    (''monthly'', JNumber (Finite 1000)),
                                    (''annual'', JNumber (Finite 10000))])]"

text \<open>
  A body with a character of two bytes, the \<open>e\<close> with an acute accent (C3 A9 in
  UTF-8), in two chunks that cut the character: \<open>{"a":"\<close> with the byte C3, then the
  byte A9 with \<open>"}\<close>. Each chunk decodes to a replacement character (EF BF BD in
  UTF-8) where its half of the character was; the two chunks together decode to the
  text of the body. \<open>split_runtime\<close> is the stub with that conversion, and with
  the values the two texts parse to.
\<close>

definition e_acute :: string where
  "e_acute = [CHR 0xC3, CHR 0xA9]"

definition replacement_character :: string where
  "replacement_character = [CHR 0xEF, CHR 0xBF, CHR 0xBD]"

definition split_chunks :: "string list" where
  \<open>split_chunks = [''{"a":"'' @ [CHR 0xC3], [CHR 0xA9] @ ''"}'']\<close>

definition split_runtime :: runtime where
  \<open>split_runtime =
     (stub_runtime
        [(''{"a":"'' @ e_acute @ ''"}'', JObject [(''a'', JString e_acute)]),
         (''{"a":"'' @ replacement_character @ replacement_character @ ''"}'',
          JObject [(''a'', JString (replacement_character @ replacement_character))])])
     \<lparr>Buffer_toString := (\<lambda>bytes.
        if bytes = ''{"a":"'' @ [CHR 0xC3] then ''{"a":"'' @ replacement_character
        else if bytes = [CHR 0xA9] @ ''"}'' then replacement_character @ ''"}''
        else bytes)\<rparr>\<close>


section \<open>Construction\<close>

lemma truthy_string: "is_string v \<Longrightarrow> truthy v = (v \<noteq> JString [])"
  by (cases v) (simp_all add: is_string_def)

lemma nullish_field: "nullish v \<Longrightarrow> field v k = JUndefined"
  by (auto simp: nullish_def)

lemma constructor_fails_iff:
  "(\<exists>e. constructor config = Inl e) = (\<not> truthy config \<or> \<not> truthy (field config ''apiKey''))"
  by (simp add: constructor_def js_not_def)

text \<open>
  C7. On a configuration whose credential, if present, is a string, construction fails
  if and only if the credential is missing or empty, whatever the other fields hold,
  and the failure is the plain \<open>Error\<close> (the ConfigurationError). On success the
  credential is stored, \<open>baseUrl\<close> and \<open>timeout\<close> are the defaults
  \<open>https://ohmyfin.ai\<close> and \<open>30000\<close> when the configuration has none, and a truthy
  \<open>baseUrl\<close> or \<open>timeout\<close> of the configuration is stored as it is. The embedding
  of the constructor is a function from the configuration to the stored record or the
  error, so it has no other effect.
\<close>

theorem constructor_credential:
  assumes "credential_typed config"
  shows "((\<exists>e. constructor config = Inl e) = credential_missing_or_empty config)
       \<and> (\<forall>e. constructor config = Inl e \<longrightarrow>
              e = Error ''API key is required. Get your API key at https://ohmyfin.ai'')
       \<and> (\<forall>c. constructor config = Inr c \<longrightarrow>
              apiKey c = field config ''apiKey''
            \<and> (field config ''baseUrl'' = JUndefined \<longrightarrow> baseUrl c = JString ''https://ohmyfin.ai'')
            \<and> (field config ''timeout'' = JUndefined \<longrightarrow> timeout c = JNumber (Finite 30000))
            \<and> (truthy (field config ''baseUrl'') \<longrightarrow> baseUrl c = field config ''baseUrl'')
            \<and> (truthy (field config ''timeout'') \<longrightarrow> timeout c = field config ''timeout''))"
proof -
  have fails: "(\<exists>e. constructor config = Inl e) = credential_missing_or_empty config"
  proof (cases "nullish config")
    case True
    then show ?thesis
      by (auto simp: constructor_fails_iff credential_missing_or_empty_def nullish_def)
  next
    case False
    have key: "\<not> truthy (field config ''apiKey'') \<longleftrightarrow>
               field config ''apiKey'' = JUndefined \<or> field config ''apiKey'' = JString []"
      using assms by (auto simp: credential_typed_def truthy_string)
    have "\<not> truthy config \<Longrightarrow> field config ''apiKey'' = JUndefined"
      by (cases config) simp_all
    with False key show ?thesis
      by (auto simp: constructor_fails_iff credential_missing_or_empty_def)
  qed
  have err: "\<forall>e. constructor config = Inl e \<longrightarrow>
              e = Error ''API key is required. Get your API key at https://ohmyfin.ai''"
    by (auto simp: constructor_def split: if_splits)
  have ok: "\<forall>c. constructor config = Inr c \<longrightarrow>
              apiKey c = field config ''apiKey''
            \<and> (field config ''baseUrl'' = JUndefined \<longrightarrow> baseUrl c = JString ''https://ohmyfin.ai'')
            \<and> (field config ''timeout'' = JUndefined \<longrightarrow> timeout c = JNumber (Finite 30000))
            \<and> (truthy (field config ''baseUrl'') \<longrightarrow> baseUrl c = field config ''baseUrl'')
            \<and> (truthy (field config ''timeout'') \<longrightarrow> timeout c = field config ''timeout'')"
    by (auto simp: constructor_def js_or_def split: if_splits)
  from fails err ok show ?thesis by blast
qed

theorem constructor_credential_witness:
  "credential_typed (JObject [(''apiKey'', JString ''k'')])
   \<and> \<not> credential_missing_or_empty (JObject [(''apiKey'', JString ''k'')])
   \<and> constructor (JObject [(''apiKey'', JString ''k'')])
       = Inr \<lparr>apiKey = JString ''k'', baseUrl = JString ''https://ohmyfin.ai'',
               timeout = JNumber (Finite 30000)\<rparr>
   \<and> credential_typed (JObject [(''baseUrl'', JString ''http://localhost:8080'')])
   \<and> credential_missing_or_empty (JObject [(''baseUrl'', JString ''http://localhost:8080'')])
   \<and> constructor (JObject [(''baseUrl'', JString ''http://localhost:8080'')])
       = Inl (Error ''API key is required. Get your API key at https://ohmyfin.ai'')"
proof -
  let ?good = "JObject [(''apiKey'', JString ''k'')]"
  let ?bad = "JObject [(''baseUrl'', JString ''http://localhost:8080'')]"
  have tg: "credential_typed ?good" and tb: "credential_typed ?bad"
    by (simp_all add: credential_typed_def is_string_def)
  have mg: "\<not> credential_missing_or_empty ?good" and mb: "credential_missing_or_empty ?bad"
    by (simp_all add: credential_missing_or_empty_def nullish_def)
  from constructor_credential [OF tg] mg obtain c where c: "constructor ?good = Inr c"
    by (cases "constructor ?good") auto
  with constructor_credential [OF tg]
  have "apiKey c = JString ''k''" "baseUrl c = JString ''https://ohmyfin.ai''"
       "timeout c = JNumber (Finite 30000)"
    by simp_all
  then have cg: "constructor ?good = Inr \<lparr>apiKey = JString ''k'',
      baseUrl = JString ''https://ohmyfin.ai'', timeout = JNumber (Finite 30000)\<rparr>"
    using c by (cases c) simp
  from constructor_credential [OF tb] mb
  have cb: "constructor ?bad = Inl (Error ''API key is required. Get your API key at https://ohmyfin.ai'')"
    by blast
  from tg tb mg mb cg cb show ?thesis by blast
qed

text \<open>
  C10. A \<open>baseUrl\<close> or \<open>timeout\<close> that the configuration supplies but that is falsy
  (\<open>""\<close>, \<open>0\<close>, \<open>null\<close>, \<open>false\<close>, \<open>NaN\<close>) is replaced by the default, exactly as an absent
  one is: no client holds a falsy base address or a zero timeout.
\<close>

theorem constructor_defaults_on_falsy:
  "constructor config = Inr c \<Longrightarrow>
     (\<not> truthy (field config ''baseUrl'') \<longrightarrow> baseUrl c = JString ''https://ohmyfin.ai'')
   \<and> (\<not> truthy (field config ''timeout'') \<longrightarrow> timeout c = JNumber (Finite 30000))
   \<and> truthy (baseUrl c) \<and> truthy (timeout c)"
  by (auto simp: constructor_def js_or_def split: if_splits)

theorem constructor_defaults_on_falsy_witness:
  "constructor (JObject [(''apiKey'', JString ''k''), (''baseUrl'', JString []),
                         (''timeout'', JNumber (Finite 0))])
     = Inr \<lparr>apiKey = JString ''k'', baseUrl = JString ''https://ohmyfin.ai'',
             timeout = JNumber (Finite 30000)\<rparr>
   \<and> \<not> truthy (field (JObject [(''apiKey'', JString ''k''), (''baseUrl'', JString []),
                         (''timeout'', JNumber (Finite 0))]) ''baseUrl'')
   \<and> \<not> truthy (field (JObject [(''apiKey'', JString ''k''), (''baseUrl'', JString []),
                         (''timeout'', JNumber (Finite 0))]) ''timeout'')
   \<and> baseUrl \<lparr>apiKey = JString ''k'', baseUrl = JString ''https://ohmyfin.ai'',
             timeout = JNumber (Finite 30000)\<rparr> = JString ''https://ohmyfin.ai''
   \<and> timeout \<lparr>apiKey = JString ''k'', baseUrl = JString ''https://ohmyfin.ai'',
             timeout = JNumber (Finite 30000)\<rparr> = JNumber (Finite 30000)"
proof -
  let ?cfg = "JObject [(''apiKey'', JString ''k''), (''baseUrl'', JString []),
                       (''timeout'', JNumber (Finite 0))]"
  let ?c = "\<lparr>apiKey = JString ''k'', baseUrl = JString ''https://ohmyfin.ai'',
             timeout = JNumber (Finite 30000)\<rparr>"
  have run: "constructor ?cfg = Inr ?c"
    by (simp add: constructor_def js_or_def js_not_def)
  have f1: "\<not> truthy (field ?cfg ''baseUrl'')" and f2: "\<not> truthy (field ?cfg ''timeout'')"
    by simp_all
  from constructor_defaults_on_falsy [OF run] f1 f2 run show ?thesis by simp
qed

section \<open>The promise settles once\<close>

lemma resolve_settled: "p \<noteq> Pending \<Longrightarrow> resolve v p = p"
  by (cases p) (simp_all add: resolve_def)

lemma reject_settled: "p \<noteq> Pending \<Longrightarrow> reject e p = p"
  by (cases p) (simp_all add: reject_def)

lemma on_end_settled: "p \<noteq> Pending \<Longrightarrow> on_end rt sc body p = p"
  by (simp add: on_end_def resolve_settled reject_settled split: option.splits)

lemma handle_settled: "promise_of s \<noteq> Pending \<Longrightarrow> promise_of (handle rt s e) = promise_of s"
  by (cases e) (simp_all add: reject_settled on_end_settled split: option.splits prod.splits)

lemma settled_stays:
  "promise_of s \<noteq> Pending \<Longrightarrow> promise_of (foldl (handle rt) s evs) = promise_of s"
proof (induction evs arbitrary: s)
  case Nil
  show ?case by simp
next
  case (Cons e evs)
  from Cons.prems have "promise_of (handle rt s e) \<noteq> Pending"
    by (simp add: handle_settled)
  from Cons.IH [OF this] Cons.prems show ?case
    by (simp add: handle_settled)
qed

lemma handle_destroyed: "destroyed s \<Longrightarrow> destroyed (handle rt s e)"
  by (cases e) (simp_all split: option.splits prod.splits)

lemma destroyed_stays: "destroyed s \<Longrightarrow> destroyed (foldl (handle rt) s evs)"
  by (induction evs arbitrary: s) (simp_all add: handle_destroyed)

lemma on_end_Pending:
  "on_end rt sc body Pending =
     (case JSON_parse rt body of
        None \<Rightarrow> Rejected (OhmyfinError_new ''Invalid JSON response'' sc JUndefined)
      | Some json \<Rightarrow>
          if sc \<ge> 400 then
            (case api_error rt json sc of
               None \<Rightarrow> Rejected (OhmyfinError_new ''Invalid JSON response'' sc JUndefined)
             | Some e \<Rightarrow> Rejected e)
          else Resolved json)"
  by (simp add: on_end_def resolve_def reject_def split: option.splits)

lemma on_end_settles: "on_end rt sc body Pending \<noteq> Pending"
  by (simp add: on_end_Pending split: option.splits)

section \<open>Delivery of a response\<close>

lemma data_chunks:
  "res s = Some (sc, body) \<Longrightarrow>
   foldl (handle rt) s (map Data chunks) = s\<lparr>res := Some (sc, body @ accumulated rt chunks)\<rparr>"
  by (induction chunks arbitrary: s body) (simp_all add: accumulated_def)

lemma deliver_response:
  "promise_of (foldl (handle rt) \<lparr>promise_of = Pending, res = None, destroyed = False\<rparr>
                 (responds sc chunks rest))
     = on_end rt sc (accumulated rt chunks) Pending"
proof -
  let ?s0 = "\<lparr>promise_of = Pending, res = None, destroyed = False\<rparr>"
  let ?s1 = "\<lparr>promise_of = Pending, res = Some (sc, []), destroyed = False\<rparr>"
  let ?s2 = "\<lparr>promise_of = Pending, res = Some (sc, accumulated rt chunks), destroyed = False\<rparr>"
  have "foldl (handle rt) ?s1 (map Data chunks) = ?s2"
    using data_chunks [of ?s1 sc "[]" rt chunks] by simp
  then have "foldl (handle rt) ?s0 (responds sc chunks rest)
               = foldl (handle rt) (handle rt ?s2 End) rest"
    by (simp add: responds_def)
  moreover have "promise_of (handle rt ?s2 End) = on_end rt sc (accumulated rt chunks) Pending"
    by simp
  ultimately show ?thesis
    using settled_stays [of "handle rt ?s2 End" rt rest]
          on_end_settles [of rt sc "accumulated rt chunks"]
    by simp
qed

lemma handle_in_flight:
  "in_flight e \<Longrightarrow> promise_of (handle rt s e) = promise_of s"
  by (cases e) (simp_all split: option.splits prod.splits)

lemma deliver_in_flight:
  "list_all in_flight pre \<Longrightarrow> promise_of (foldl (handle rt) s pre) = promise_of s"
  by (induction pre arbitrary: s) (simp_all add: handle_in_flight)

lemma handle_in_flight_destroyed:
  "in_flight e \<Longrightarrow> destroyed (handle rt s e) = destroyed s"
  by (cases e) (simp_all split: option.splits prod.splits)

lemma deliver_in_flight_destroyed:
  "list_all in_flight pre \<Longrightarrow> destroyed (foldl (handle rt) s pre) = destroyed s"
  by (induction pre arbitrary: s) (simp_all add: handle_in_flight_destroyed)

lemma deliver_timeout:
  assumes "list_all in_flight pre" and "promise_of s = Pending"
  shows "promise_of (foldl (handle rt) s (pre @ Timeout # rest))
           = Rejected (OhmyfinError_new ''Request timeout'' 408 JUndefined)
       \<and> destroyed (foldl (handle rt) s (pre @ Timeout # rest))"
proof -
  let ?s1 = "foldl (handle rt) s pre"
  let ?s2 = "handle rt ?s1 Timeout"
  have p1: "promise_of ?s1 = Pending"
    using assms by (simp add: deliver_in_flight)
  then have p2: "promise_of ?s2 = Rejected (OhmyfinError_new ''Request timeout'' 408 JUndefined)"
    by (simp add: reject_def)
  have d2: "destroyed ?s2" by simp
  have "foldl (handle rt) s (pre @ Timeout # rest) = foldl (handle rt) ?s2 rest"
    by simp
  with p2 d2 show ?thesis
    using settled_stays [of ?s2 rt rest] destroyed_stays [of ?s2 rt rest] by simp
qed


section \<open>The dispatcher and the operations\<close>

lemma request_issued:
  "issued (request rt self meth path data evs) \<noteq> [] \<Longrightarrow>
   settled (request rt self meth path data evs)
     = promise_of (foldl (handle rt) \<lparr>promise_of = Pending, res = None, destroyed = False\<rparr> evs)
 \<and> aborted (request rt self meth path data evs)
     = destroyed (foldl (handle rt) \<lparr>promise_of = Pending, res = None, destroyed = False\<rparr> evs)
 \<and> map (\<lambda>r. opt_timeout (options r)) (issued (request rt self meth path data evs))
     = [timeout self]"
  by (simp add: request_def Let_def split: option.splits)

lemma request_dispatches:
  "URL_new rt path (baseUrl self) \<noteq> None \<Longrightarrow>
   length (issued (request rt self meth path data evs)) = 1"
  by (auto simp: request_def Let_def split: option.splits)

lemma throw_not_issued: "issued (throw e) = []"
  by (simp add: throw_def)

lemma operation_delegates:
  assumes "oper \<in> operations" and "issued (oper rt self params evs) \<noteq> []"
  shows "\<exists>path. oper rt self params evs = request rt self ''POST'' path params evs"
  using assms
  by (auto simp: operations_def track_def change_def validate_def getSSI_def throw_not_issued
           split: if_splits)

lemma operation_settled:
  assumes "oper \<in> operations" and "issued (oper rt self params evs) \<noteq> []"
  shows "settled (oper rt self params evs)
           = promise_of (foldl (handle rt) \<lparr>promise_of = Pending, res = None, destroyed = False\<rparr> evs)
       \<and> aborted (oper rt self params evs)
           = destroyed (foldl (handle rt) \<lparr>promise_of = Pending, res = None, destroyed = False\<rparr> evs)
       \<and> map (\<lambda>r. opt_timeout (options r)) (issued (oper rt self params evs)) = [timeout self]"
proof -
  from operation_delegates [OF assms] obtain path
    where eq: "oper rt self params evs = request rt self ''POST'' path params evs" ..
  with assms(2) have "issued (request rt self ''POST'' path params evs) \<noteq> []" by simp
  from request_issued [OF this] eq show ?thesis by simp
qed

lemma example_call_issued:
  "issued (track (stub_runtime bodies) default_client example_params evs) \<noteq> []"
  by (simp add: track_def nullish_def js_not_def example_params_def request_def
        stub_runtime_def default_client_def Let_def)

lemma default_client_constructed:
  "constructor (JObject [(''apiKey'', JString ''k'')]) = Inr default_client"
  by (simp add: constructor_def js_not_def js_or_def default_client_def)

lemma track_is_operation: "track \<in> operations"
  by (simp add: operations_def)

section \<open>Classification of a completed response\<close>

lemma operation_response:
  assumes "oper \<in> operations"
      and "issued (oper rt self params (responds sc chunks rest)) \<noteq> []"
  shows "settled (oper rt self params (responds sc chunks rest))
           = on_end rt sc (accumulated rt chunks) Pending"
  using operation_settled [OF assms] by (simp add: deliver_response)

text \<open>
  A response with a status below 400 resolves the promise with the value parsed from
  the accumulated text; that is the value the body parses to when no character of the
  body is cut by a chunk boundary.
\<close>

lemma whole_response_resolves_parsed_value:
  assumes "oper \<in> operations"
      and "issued (oper rt self params (responds sc chunks rest)) \<noteq> []"
      and "whole rt chunks"
      and "JSON_parse rt (body_text rt chunks) = Some json"
      and "sc < 400"
  shows "settled (oper rt self params (responds sc chunks rest)) = Resolved json"
  using operation_response [OF assms(1,2)] assms(3,4,5)
  by (simp add: on_end_Pending whole_def)

text \<open>
  C3 does not hold of the code. The response has status 200 and the body
  \<open>{"a":"\<close>, the two bytes of an \<open>e\<close> with an acute accent, \<open>"}\<close>, which parses as
  JSON; it arrives in two chunks that cut the accented character. The listener
  converts each chunk to a string on its own, so the text it accumulates has two
  replacement characters where the body has the accented character, and the promise
  resolves with the value of that text, not with the value the body parses to.
\<close>

theorem split_character_resolves_replaced_value:
  \<open>body_text split_runtime split_chunks = ''{"a":"'' @ e_acute @ ''"}''
   \<and> JSON_parse split_runtime (body_text split_runtime split_chunks)
       = Some (JObject [(''a'', JString e_acute)])
   \<and> accumulated split_runtime split_chunks
       = ''{"a":"'' @ replacement_character @ replacement_character @ ''"}''
   \<and> settled (track split_runtime default_client example_params (responds 200 split_chunks []))
       = Resolved (JObject [(''a'', JString (replacement_character @ replacement_character))])
   \<and> JObject [(''a'', JString (replacement_character @ replacement_character))]
       \<noteq> JObject [(''a'', JString e_acute)]\<close>
proof -
  have bt: \<open>body_text split_runtime split_chunks = ''{"a":"'' @ e_acute @ ''"}''\<close>
    by (simp add: body_text_def split_runtime_def split_chunks_def e_acute_def stub_runtime_def)
  have pb: "JSON_parse split_runtime (body_text split_runtime split_chunks)
              = Some (JObject [(''a'', JString e_acute)])"
    unfolding bt
    by (simp add: split_runtime_def stub_runtime_def)
  have ac: \<open>accumulated split_runtime split_chunks
              = ''{"a":"'' @ replacement_character @ replacement_character @ ''"}''\<close>
    by (simp add: accumulated_def split_runtime_def split_chunks_def stub_runtime_def)
  have pa: "JSON_parse split_runtime (accumulated split_runtime split_chunks)
              = Some (JObject [(''a'', JString (replacement_character @ replacement_character))])"
    unfolding ac
    by (simp add: split_runtime_def stub_runtime_def e_acute_def replacement_character_def)
  have iss: "issued (track split_runtime default_client example_params
                       (responds 200 split_chunks [])) \<noteq> []"
    by (simp add: track_def nullish_def js_not_def example_params_def request_def
          split_runtime_def stub_runtime_def default_client_def Let_def)
  have st: "settled (track split_runtime default_client example_params
                       (responds 200 split_chunks []))
              = Resolved (JObject [(''a'', JString (replacement_character @ replacement_character))])"
    using operation_response [OF track_is_operation iss] pa
    by (simp add: on_end_Pending)
  have ne: "JObject [(''a'', JString (replacement_character @ replacement_character))]
              \<noteq> JObject [(''a'', JString e_acute)]"
    by (simp add: replacement_character_def e_acute_def)
  from bt pb ac st ne show ?thesis by blast
qed

text \<open>
  C4. For each of the four operations whose request reached the transport: when the
  body of the response, which is the text accumulated from its chunks, does not parse
  as JSON, the promise is rejected with the \<open>OhmyfinError\<close> of message
  \<open>Invalid JSON response\<close> and of the status code received, whatever that status is
  (also below 400), with no \<open>errors\<close>.
\<close>

theorem unparsable_body_rejects:
  assumes "oper \<in> operations"
      and "issued (oper rt self params (responds sc chunks rest)) \<noteq> []"
      and "JSON_parse rt (accumulated rt chunks) = None"
  shows "settled (oper rt self params (responds sc chunks rest))
           = Rejected (OhmyfinError \<lparr>message = ''Invalid JSON response'', statusCode = sc,
                                     errors = JUndefined\<rparr>)"
  using operation_response [OF assms(1,2)] assms(3)
  by (simp add: on_end_Pending OhmyfinError_new_def)

theorem unparsable_body_rejects_witness:
  "track \<in> operations
   \<and> issued (track (stub_runtime []) default_client example_params
               (responds 200 [''<html>'', ''</html>''] [])) \<noteq> []
   \<and> accumulated (stub_runtime []) [''<html>'', ''</html>''] = ''<html></html>''
   \<and> JSON_parse (stub_runtime []) (accumulated (stub_runtime []) [''<html>'', ''</html>'']) = None
   \<and> settled (track (stub_runtime []) default_client example_params
               (responds 200 [''<html>'', ''</html>''] []))
       = Rejected (OhmyfinError \<lparr>message = ''Invalid JSON response'', statusCode = 200,
                                 errors = JUndefined\<rparr>)"
proof -
  let ?rt = "stub_runtime []"
  have iss: "issued (track ?rt default_client example_params
               (responds 200 [''<html>'', ''</html>''] [])) \<noteq> []"
    by (rule example_call_issued)
  have acc: "accumulated ?rt [''<html>'', ''</html>''] = ''<html></html>''"
    by (simp add: accumulated_def stub_runtime_def)
  have parse: "JSON_parse ?rt (accumulated ?rt [''<html>'', ''</html>'']) = None"
    by (simp add: stub_runtime_def)
  from unparsable_body_rejects [OF track_is_operation iss parse]
       track_is_operation iss acc parse
  show ?thesis by blast
qed

lemma api_error_typed:
  assumes "\<not> nullish json"
      and "is_string (field json ''message'') \<or> \<not> truthy (field json ''message'')"
  shows "api_error rt json sc =
           Some (OhmyfinError
                  \<lparr>message = (case field json ''message'' of
                                 JString s \<Rightarrow> if s = [] then ''API request failed'' else s
                               | _ \<Rightarrow> ''API request failed''),
                    statusCode = sc, errors = field json ''errors''\<rparr>)"
  using assms
  by (cases "field json ''message''")
     (auto simp: api_error_def js_or_def Error_message_def OhmyfinError_new_def is_string_def)

text \<open>
  On a payload that is \<open>null\<close> the read of \<open>json.message\<close> throws inside \<open>try\<close>, and
  so does the conversion to a string of a \<open>message\<close> that cannot be converted: a
  status of 400 or more with such a body is reported as an invalid response, with no
  \<open>errors\<close>.
\<close>

lemma null_payload_rejects_as_invalid:
  assumes "oper \<in> operations"
      and "issued (oper rt self params (responds sc chunks rest)) \<noteq> []"
      and "JSON_parse rt (accumulated rt chunks) = Some JNull"
      and "400 \<le> sc"
  shows "settled (oper rt self params (responds sc chunks rest))
           = Rejected (OhmyfinError \<lparr>message = ''Invalid JSON response'', statusCode = sc,
                                     errors = JUndefined\<rparr>)"
  using operation_response [OF assms(1,2)] assms(3,4)
  by (simp add: on_end_Pending api_error_def nullish_def OhmyfinError_new_def)

lemma unconvertible_message_rejects_as_invalid:
  assumes "oper \<in> operations"
      and "issued (oper rt self params (responds sc chunks rest)) \<noteq> []"
      and "JSON_parse rt (accumulated rt chunks) = Some json"
      and "400 \<le> sc"
      and "field json ''message'' = JObject kvs"
      and "ToString rt (JObject kvs) = None"
  shows "settled (oper rt self params (responds sc chunks rest))
           = Rejected (OhmyfinError \<lparr>message = ''Invalid JSON response'', statusCode = sc,
                                     errors = JUndefined\<rparr>)"
  using operation_response [OF assms(1,2)] assms(3,4,5,6)
  by (simp add: on_end_Pending api_error_def js_or_def Error_message_def OhmyfinError_new_def)

text \<open>
  C1, as the code has it. For each of the four operations whose request reached the
  transport: when the response has a status of 400 or more and a body, no character of
  which is cut by a chunk boundary, that parses as JSON to a value other than \<open>null\<close>
  whose \<open>message\<close> is a string or falsy (absent included), the promise is rejected
  with an \<open>OhmyfinError\<close> whose \<open>statusCode\<close> is the status received, whose
  \<open>errors\<close> is the payload's \<open>errors\<close> (\<open>undefined\<close> when it has none), and whose
  \<open>message\<close> is the payload's \<open>message\<close> when that is a non-empty string and
  \<open>API request failed\<close> otherwise: when it is absent, and also when it is present but
  empty or otherwise falsy.
\<close>

theorem api_failure_rejects:
  assumes "oper \<in> operations"
      and "issued (oper rt self params (responds sc chunks rest)) \<noteq> []"
      and "whole rt chunks"
      and "JSON_parse rt (body_text rt chunks) = Some json"
      and "400 \<le> sc"
      and "\<not> nullish json"
      and "is_string (field json ''message'') \<or> \<not> truthy (field json ''message'')"
  shows "settled (oper rt self params (responds sc chunks rest))
           = Rejected (OhmyfinError
                        \<lparr>message = (case field json ''message'' of
                                       JString s \<Rightarrow> if s = [] then ''API request failed'' else s
                                     | _ \<Rightarrow> ''API request failed''),
                          statusCode = sc, errors = field json ''errors''\<rparr>)"
  using operation_response [OF assms(1,2)] assms(3,4,5) api_error_typed [OF assms(6,7), of rt sc]
  by (simp add: on_end_Pending whole_def)

theorem api_failure_rejects_witness:
  \<open>track \<in> operations
   \<and> issued (track (stub_runtime [(''{"message":"not found"}'',
                                    JObject [(''message'', JString ''not found'')])])
               default_client example_params
               (responds 404 [''{"message":'', ''"not found"}''] [])) \<noteq> []
   \<and> whole (stub_runtime [(''{"message":"not found"}'',
                           JObject [(''message'', JString ''not found'')])])
           [''{"message":'', ''"not found"}'']
   \<and> settled (track (stub_runtime [(''{"message":"not found"}'',
                                     JObject [(''message'', JString ''not found'')])])
               default_client example_params
               (responds 404 [''{"message":'', ''"not found"}''] []))
       = Rejected (OhmyfinError \<lparr>message = ''not found'', statusCode = 404,
                                 errors = JUndefined\<rparr>)
   \<and> settled (track (stub_runtime [(''{"errors":{"date":["bad"]}}'',
                        JObject [(''errors'', JObject [(''date'', JArray [JString ''bad''])])])])
               default_client example_params
               (responds 400 [''{"errors":{"date":["bad"]}}''] []))
       = Rejected (OhmyfinError \<lparr>message = ''API request failed'', statusCode = 400,
                                 errors = JObject [(''date'', JArray [JString ''bad''])]\<rparr>)\<close>
proof -
  let ?b1 = \<open>''{"message":"not found"}''\<close>
  let ?c1 = \<open>[''{"message":'', ''"not found"}'']\<close>
  let ?j1 = "JObject [(''message'', JString ''not found'')]"
  let ?b2 = \<open>''{"errors":{"date":["bad"]}}''\<close>
  let ?j2 = "JObject [(''errors'', JObject [(''date'', JArray [JString ''bad''])])]"
  have iss1: "issued (track (stub_runtime [(?b1, ?j1)]) default_client example_params
                 (responds 404 ?c1 [])) \<noteq> []"
    by (rule example_call_issued)
  have iss2: "issued (track (stub_runtime [(?b2, ?j2)]) default_client example_params
                 (responds 400 [?b2] [])) \<noteq> []"
    by (rule example_call_issued)
  have w1: "whole (stub_runtime [(?b1, ?j1)]) ?c1"
   and w2: "whole (stub_runtime [(?b2, ?j2)]) [?b2]"
    by (simp_all add: whole_def accumulated_def body_text_def stub_runtime_def)
  have p1: "JSON_parse (stub_runtime [(?b1, ?j1)]) (body_text (stub_runtime [(?b1, ?j1)]) ?c1)
              = Some ?j1"
   and p2: "JSON_parse (stub_runtime [(?b2, ?j2)]) (body_text (stub_runtime [(?b2, ?j2)]) [?b2])
              = Some ?j2"
    by (simp_all add: body_text_def stub_runtime_def)
  have s1: "(400::int) \<le> 404" and s2: "(400::int) \<le> 400" by simp_all
  have n1: "\<not> nullish ?j1" and n2: "\<not> nullish ?j2"
    by (simp_all add: nullish_def)
  have m1: "is_string (field ?j1 ''message'') \<or> \<not> truthy (field ?j1 ''message'')"
   and m2: "is_string (field ?j2 ''message'') \<or> \<not> truthy (field ?j2 ''message'')"
    by (simp_all add: is_string_def)
  from api_failure_rejects [OF track_is_operation iss1 w1 p1 s1 n1 m1]
       api_failure_rejects [OF track_is_operation iss2 w2 p2 s2 n2 m2]
       track_is_operation iss1 w1
  show ?thesis by simp
qed

text \<open>
  C1 as stated fails on a payload whose \<open>message\<close> is present but empty: the status is
  400, the body \<open>{"message":""}\<close> arrives in one piece and parses, its \<open>message\<close>
  field is the empty string, and the error's message is \<open>API request failed\<close>, not
  the field.
\<close>

theorem api_failure_empty_message_counterexample:
  \<open>absent (JObject [(''message'', JString [])]) ''message'' = False
   \<and> field (JObject [(''message'', JString [])]) ''message'' = JString []
   \<and> settled (track (stub_runtime [(''{"message":""}'', JObject [(''message'', JString [])])])
               default_client example_params (responds 400 [''{"message":""}''] []))
       = Rejected (OhmyfinError \<lparr>message = ''API request failed'', statusCode = 400,
                                 errors = JUndefined\<rparr>)\<close>
  by (simp add: absent_def track_def nullish_def js_not_def example_params_def request_def
        stub_runtime_def default_client_def Let_def responds_def on_end_def api_error_def
        js_or_def Error_message_def OhmyfinError_new_def reject_def)

section \<open>Timeout\<close>

text \<open>
  When the transport emits \<open>'timeout'\<close> while the response is incomplete (nothing, or
  the head and pieces of the body, has been delivered, and no \<open>'error'\<close>), the
  listener destroys the request and rejects the promise.
\<close>

lemma timeout_event_aborts_and_rejects:
  assumes "oper \<in> operations"
      and "issued (oper rt self params (pre @ Timeout # rest)) \<noteq> []"
      and "list_all in_flight pre"
  shows "settled (oper rt self params (pre @ Timeout # rest))
           = Rejected (OhmyfinError \<lparr>message = ''Request timeout'', statusCode = 408,
                                     errors = JUndefined\<rparr>)
       \<and> aborted (oper rt self params (pre @ Timeout # rest))
       \<and> map (\<lambda>r. opt_timeout (options r)) (issued (oper rt self params (pre @ Timeout # rest)))
           = [timeout self]"
proof -
  let ?s0 = "\<lparr>promise_of = Pending, res = None, destroyed = False\<rparr>"
  have "promise_of ?s0 = Pending" by simp
  from deliver_timeout [OF assms(3) this, of rt rest] operation_settled [OF assms(1,2)]
  show ?thesis
    by (simp add: OhmyfinError_new_def)
qed




section \<open>Local validation\<close>

lemma fails_locally_throw_Error: "fails_locally (throw (Error m))"
  by (simp add: fails_locally_def throw_def)

lemma fails_locally_not_OhmyfinError:
  "fails_locally r \<Longrightarrow> settled r = Rejected e \<Longrightarrow> \<not> is_OhmyfinError e"
  by (cases e) (simp_all add: fails_locally_def)

lemma request_not_fails_locally: "\<not> fails_locally (request rt self meth path data evs)"
  by (simp add: fails_locally_def request_def Let_def split: option.splits)

lemma request_not_throw_Error: "request rt self meth path data evs \<noteq> throw (Error m)"
  using request_not_fails_locally [of rt self meth path data evs] fails_locally_throw_Error [of m]
  by auto

lemma throw_eq_iff: "(throw e = throw e') = (e = e')"
  by (simp add: throw_def)

lemma absent_falsy: "absent params k \<Longrightarrow> js_not (field params k)"
  by (simp add: absent_def js_not_def)

lemma stub_resolves_default:
  "URL_new (stub_runtime bodies) path (baseUrl default_client) \<noteq> None"
  by (simp add: stub_runtime_def default_client_def)

text \<open>
  C2. On a parameter object, each operation fails locally when a field the table of
  required fields lists for it is left out: the promise is rejected with a plain
  \<open>Error\<close> (not an \<open>OhmyfinError\<close>) and nothing is handed to the transport, whatever
  the transport would have done. For track and change the identifier is left out when
  both \<open>uetr\<close> and \<open>ref\<close> are.
\<close>

theorem omitted_required_field_fails_locally:
  assumes "\<not> nullish params"
  shows "(absent params ''uetr'' \<and> absent params ''ref'' \<longrightarrow> fails_locally (track rt self params evs))
       \<and> (absent params ''amount'' \<longrightarrow> fails_locally (track rt self params evs))
       \<and> (absent params ''date'' \<longrightarrow> fails_locally (track rt self params evs))
       \<and> (absent params ''currency'' \<longrightarrow> fails_locally (track rt self params evs))
       \<and> (absent params ''uetr'' \<and> absent params ''ref'' \<longrightarrow> fails_locally (change rt self params evs))
       \<and> (absent params ''status'' \<longrightarrow> fails_locally (change rt self params evs))
       \<and> (absent params ''role'' \<longrightarrow> fails_locally (change rt self params evs))
       \<and> (absent params ''beneficiary_bic'' \<longrightarrow> fails_locally (validate rt self params evs))
       \<and> (absent params ''currency'' \<longrightarrow> fails_locally (validate rt self params evs))
       \<and> (absent params ''swift'' \<longrightarrow> fails_locally (getSSI rt self params evs))
       \<and> (absent params ''currency'' \<longrightarrow> fails_locally (getSSI rt self params evs))"
proof -
  have t: "js_not (field params ''uetr'') \<and> js_not (field params ''ref'')
             \<or> js_not (field params ''amount'') \<or> js_not (field params ''date'')
             \<or> js_not (field params ''currency'')
           \<Longrightarrow> fails_locally (track rt self params evs)"
    using assms by (auto simp: track_def fails_locally_throw_Error)
  have c: "js_not (field params ''uetr'') \<and> js_not (field params ''ref'')
             \<or> js_not (field params ''status'') \<or> js_not (field params ''role'')
           \<Longrightarrow> fails_locally (change rt self params evs)"
    using assms by (auto simp: change_def fails_locally_throw_Error)
  have v: "js_not (field params ''beneficiary_bic'') \<or> js_not (field params ''currency'')
           \<Longrightarrow> fails_locally (validate rt self params evs)"
    using assms by (auto simp: validate_def fails_locally_throw_Error)
  have g: "js_not (field params ''swift'') \<or> js_not (field params ''currency'')
           \<Longrightarrow> fails_locally (getSSI rt self params evs)"
    using assms by (auto simp: getSSI_def fails_locally_throw_Error)
  show ?thesis
    using t c v g by (simp add: absent_falsy)
qed

theorem omitted_required_field_fails_locally_witness:
  "\<not> nullish (JObject [])
   \<and> absent (JObject []) ''uetr'' \<and> absent (JObject []) ''ref'' \<and> absent (JObject []) ''amount''
   \<and> absent (JObject []) ''date'' \<and> absent (JObject []) ''currency''
   \<and> absent (JObject []) ''status'' \<and> absent (JObject []) ''role''
   \<and> absent (JObject []) ''beneficiary_bic'' \<and> absent (JObject []) ''swift''
   \<and> fails_locally (track (stub_runtime []) default_client (JObject []) (responds 200 [''{}''] []))
   \<and> fails_locally (change (stub_runtime []) default_client (JObject []) (responds 200 [''{}''] []))
   \<and> fails_locally (validate (stub_runtime []) default_client (JObject []) (responds 200 [''{}''] []))
   \<and> fails_locally (getSSI (stub_runtime []) default_client (JObject []) (responds 200 [''{}''] []))
   \<and> absent (JObject [(''uetr'', JString ''u''), (''date'', JString ''2024-01-15''),
                       (''currency'', JString ''USD'')]) ''amount''
   \<and> fails_locally (track (stub_runtime []) default_client
        (JObject [(''uetr'', JString ''u''), (''date'', JString ''2024-01-15''),
                  (''currency'', JString ''USD'')]) (responds 200 [''{}''] []))"
proof -
  let ?p = "JObject [(''uetr'', JString ''u''), (''date'', JString ''2024-01-15''),
                     (''currency'', JString ''USD'')]"
  have n0: "\<not> nullish (JObject [])" and n1: "\<not> nullish ?p"
    by (simp_all add: nullish_def)
  have a0: "absent (JObject []) k" for k
    by (simp add: absent_def)
  have a1: "absent ?p ''amount''"
    by (simp add: absent_def)
  from omitted_required_field_fails_locally [OF n0, of "stub_runtime []" default_client
         "responds 200 [''{}''] []"]
       omitted_required_field_fails_locally [OF n1, of "stub_runtime []" default_client
         "responds 200 [''{}''] []"]
       n0 a0 a1
  show ?thesis by simp
qed

text \<open>
  C5, as the code has it. On a parameter object, the identifier check of track fails
  (with \<open>Either uetr or ref is required\<close>) if and only if both \<open>uetr\<close> and \<open>ref\<close> are
  falsy: absent, or present but empty. A call with a non-empty \<open>uetr\<close> only, a
  non-empty \<open>ref\<close> only, or both, together with truthy \<open>amount\<close>, \<open>date\<close> and
  \<open>currency\<close>, is accepted and handed to the dispatcher.
\<close>

theorem track_identifier_check:
  assumes "\<not> nullish params"
  shows "((track rt self params evs = throw (Error ''Either uetr or ref is required''))
            = (\<not> truthy (field params ''uetr'') \<and> \<not> truthy (field params ''ref'')))
       \<and> ((truthy (field params ''uetr'') \<or> truthy (field params ''ref''))
            \<and> truthy (field params ''amount'') \<and> truthy (field params ''date'')
            \<and> truthy (field params ''currency'')
          \<longrightarrow> track rt self params evs = request rt self ''POST'' ''/api/track'' params evs)"
  using assms
  by (auto simp: track_def js_not_def request_not_throw_Error throw_eq_iff)

theorem track_identifier_check_witness:
  "\<not> nullish example_params
   \<and> truthy (field example_params ''uetr'') \<and> \<not> truthy (field example_params ''ref'')
   \<and> track (stub_runtime []) default_client example_params []
       = request (stub_runtime []) default_client ''POST'' ''/api/track'' example_params []
   \<and> track (stub_runtime []) default_client example_params []
       \<noteq> throw (Error ''Either uetr or ref is required'')
   \<and> track (stub_runtime []) default_client
        (JObject [(''ref'', JString ''REF-1''), (''amount'', JNumber (Finite 10000)),
                  (''date'', JString ''2024-01-15''), (''currency'', JString ''USD'')]) []
       = request (stub_runtime []) default_client ''POST'' ''/api/track''
        (JObject [(''ref'', JString ''REF-1''), (''amount'', JNumber (Finite 10000)),
                  (''date'', JString ''2024-01-15''), (''currency'', JString ''USD'')]) []
   \<and> track (stub_runtime []) default_client
        (JObject [(''amount'', JNumber (Finite 10000)),
                  (''date'', JString ''2024-01-15''), (''currency'', JString ''USD'')]) []
       = throw (Error ''Either uetr or ref is required'')"
proof -
  let ?r = "JObject [(''ref'', JString ''REF-1''), (''amount'', JNumber (Finite 10000)),
                     (''date'', JString ''2024-01-15''), (''currency'', JString ''USD'')]"
  let ?n = "JObject [(''amount'', JNumber (Finite 10000)),
                     (''date'', JString ''2024-01-15''), (''currency'', JString ''USD'')]"
  have n: "\<not> nullish example_params" "\<not> nullish ?r" "\<not> nullish ?n"
    by (simp_all add: nullish_def example_params_def)
  have f: "truthy (field example_params ''uetr'')" "\<not> truthy (field example_params ''ref'')"
          "truthy (field example_params ''amount'')" "truthy (field example_params ''date'')"
          "truthy (field example_params ''currency'')"
    by (simp_all add: example_params_def)
  have g: "truthy (field ?r ''ref'')" "truthy (field ?r ''amount'')" "truthy (field ?r ''date'')"
          "truthy (field ?r ''currency'')"
          "\<not> truthy (field ?n ''uetr'')" "\<not> truthy (field ?n ''ref'')"
    by simp_all
  from track_identifier_check [OF n(1), of "stub_runtime []" default_client "[]"] f
  have t1: "track (stub_runtime []) default_client example_params []
              = request (stub_runtime []) default_client ''POST'' ''/api/track'' example_params []"
   and t2: "track (stub_runtime []) default_client example_params []
              \<noteq> throw (Error ''Either uetr or ref is required'')"
    by blast+
  from track_identifier_check [OF n(2), of "stub_runtime []" default_client "[]"] g(1-4)
  have t3: "track (stub_runtime []) default_client ?r []
              = request (stub_runtime []) default_client ''POST'' ''/api/track'' ?r []"
    by blast
  from track_identifier_check [OF n(3), of "stub_runtime []" default_client "[]"] g(5,6)
  have t4: "track (stub_runtime []) default_client ?n []
              = throw (Error ''Either uetr or ref is required'')"
    by blast
  from n(1) f(1,2) t1 t2 t3 t4 show ?thesis by blast
qed

text \<open>
  C5 as stated fails on a call that supplies \<open>uetr\<close> as the empty string: \<open>uetr\<close> is
  not absent, and the identifier check fails all the same.
\<close>

theorem track_identifier_empty_counterexample:
  "\<not> (absent (JObject [(''uetr'', JString []), (''amount'', JNumber (Finite 10000)),
                        (''date'', JString ''2024-01-15''), (''currency'', JString ''USD'')]) ''uetr''
       \<and> absent (JObject [(''uetr'', JString []), (''amount'', JNumber (Finite 10000)),
                        (''date'', JString ''2024-01-15''), (''currency'', JString ''USD'')]) ''ref'')
   \<and> track (stub_runtime []) default_client
        (JObject [(''uetr'', JString []), (''amount'', JNumber (Finite 10000)),
                  (''date'', JString ''2024-01-15''), (''currency'', JString ''USD'')]) []
       = throw (Error ''Either uetr or ref is required'')"
  by (simp add: absent_def track_def nullish_def js_not_def)

text \<open>
  C6. On a parameter object, change fails locally exactly when the identifier (both
  \<open>uetr\<close> and \<open>ref\<close>), \<open>status\<close> or \<open>role\<close> is falsy; nothing else is looked at.
  A call with a non-empty identifier, \<open>status\<close> and \<open>role\<close> passes the validation
  whatever \<open>amount\<close>, \<open>date\<close> and \<open>currency\<close> are, also when they are left out, and
  is handed to the dispatcher, which issues one request when the path resolves against
  the client's base address.
\<close>

theorem change_validates_identifier_status_role:
  assumes "\<not> nullish params"
  shows "(fails_locally (change rt self params evs)
            = (\<not> ((truthy (field params ''uetr'') \<or> truthy (field params ''ref''))
                  \<and> truthy (field params ''status'') \<and> truthy (field params ''role''))))
       \<and> ((truthy (field params ''uetr'') \<or> truthy (field params ''ref''))
            \<and> truthy (field params ''status'') \<and> truthy (field params ''role'')
          \<longrightarrow> change rt self params evs = request rt self ''POST'' ''/api/change'' params evs
              \<and> (URL_new rt ''/api/change'' (baseUrl self) \<noteq> None
                   \<longrightarrow> length (issued (change rt self params evs)) = 1))"
  using assms
  by (auto simp: change_def js_not_def fails_locally_throw_Error request_not_fails_locally
        request_dispatches)

theorem change_validates_identifier_status_role_witness:
  "\<not> nullish (JObject [(''uetr'', JString ''97ed4827-7b6f-4491-a06f-b548d5a7512d''),
                        (''status'', JString ''success''), (''role'', JString ''correspondent'')])
   \<and> absent (JObject [(''uetr'', JString ''97ed4827-7b6f-4491-a06f-b548d5a7512d''),
                        (''status'', JString ''success''), (''role'', JString ''correspondent'')]) ''amount''
   \<and> absent (JObject [(''uetr'', JString ''97ed4827-7b6f-4491-a06f-b548d5a7512d''),
                        (''status'', JString ''success''), (''role'', JString ''correspondent'')]) ''date''
   \<and> absent (JObject [(''uetr'', JString ''97ed4827-7b6f-4491-a06f-b548d5a7512d''),
                        (''status'', JString ''success''), (''role'', JString ''correspondent'')]) ''currency''
   \<and> \<not> fails_locally (change (stub_runtime []) default_client
          (JObject [(''uetr'', JString ''97ed4827-7b6f-4491-a06f-b548d5a7512d''),
                    (''status'', JString ''success''), (''role'', JString ''correspondent'')]) [])
   \<and> length (issued (change (stub_runtime []) default_client
          (JObject [(''uetr'', JString ''97ed4827-7b6f-4491-a06f-b548d5a7512d''),
                    (''status'', JString ''success''), (''role'', JString ''correspondent'')]) [])) = 1"
proof -
  let ?p = "JObject [(''uetr'', JString ''97ed4827-7b6f-4491-a06f-b548d5a7512d''),
                     (''status'', JString ''success''), (''role'', JString ''correspondent'')]"
  have n: "\<not> nullish ?p" by (simp add: nullish_def)
  have a: "absent ?p ''amount''" "absent ?p ''date''" "absent ?p ''currency''"
    by (simp_all add: absent_def)
  have f: "truthy (field ?p ''uetr'')" "truthy (field ?p ''status'')" "truthy (field ?p ''role'')"
    by simp_all
  from change_validates_identifier_status_role [OF n, of "stub_runtime []" default_client "[]"]
       f stub_resolves_default [of "[]" "''/api/change''"]
  have t1: "\<not> fails_locally (change (stub_runtime []) default_client ?p [])"
   and t2: "length (issued (change (stub_runtime []) default_client ?p [])) = 1"
    by blast+
  from n a t1 t2 show ?thesis by blast
qed

text \<open>
  C9, as the code has it. On a parameter object with a non-empty identifier, a numeric
  \<open>amount\<close> and truthy \<open>date\<close> and \<open>currency\<close>: track passes the validation and is
  handed to the dispatcher (which issues one request when the path resolves) when the
  amount is any number other than \<open>0\<close> and \<open>NaN\<close>, negative numbers included, so
  \<open>amount > 0\<close> is not enforced; an amount of \<open>0\<close> (or \<open>NaN\<close>) is treated as a
  missing amount and fails locally with \<open>amount, date, and currency are required\<close>.
\<close>

theorem track_amount_check:
  assumes "\<not> nullish params"
      and "truthy (field params ''uetr'') \<or> truthy (field params ''ref'')"
      and "field params ''amount'' = JNumber n"
      and "truthy (field params ''date'')"
      and "truthy (field params ''currency'')"
  shows "(n \<noteq> NaN \<and> n \<noteq> Finite 0
            \<longrightarrow> track rt self params evs = request rt self ''POST'' ''/api/track'' params evs
                \<and> (URL_new rt ''/api/track'' (baseUrl self) \<noteq> None
                     \<longrightarrow> length (issued (track rt self params evs)) = 1))
       \<and> (n = NaN \<or> n = Finite 0
            \<longrightarrow> track rt self params evs = throw (Error ''amount, date, and currency are required''))"
  using assms
  by (auto simp: track_def js_not_def request_dispatches)

theorem track_amount_check_witness:
  "track (stub_runtime []) default_client
        (JObject [(''uetr'', JString ''u''), (''amount'', JNumber (Finite (- 5))),
                  (''date'', JString ''2024-01-15''), (''currency'', JString ''USD'')]) []
       = request (stub_runtime []) default_client ''POST'' ''/api/track''
        (JObject [(''uetr'', JString ''u''), (''amount'', JNumber (Finite (- 5))),
                  (''date'', JString ''2024-01-15''), (''currency'', JString ''USD'')]) []
   \<and> length (issued (track (stub_runtime []) default_client
        (JObject [(''uetr'', JString ''u''), (''amount'', JNumber (Finite (- 5))),
                  (''date'', JString ''2024-01-15''), (''currency'', JString ''USD'')]) [])) = 1
   \<and> track (stub_runtime []) default_client
        (JObject [(''uetr'', JString ''u''), (''amount'', JNumber NaN),
                  (''date'', JString ''2024-01-15''), (''currency'', JString ''USD'')]) []
       = throw (Error ''amount, date, and currency are required'')"
proof -
  let ?p = "JObject [(''uetr'', JString ''u''), (''amount'', JNumber (Finite (- 5))),
                     (''date'', JString ''2024-01-15''), (''currency'', JString ''USD'')]"
  let ?q = "JObject [(''uetr'', JString ''u''), (''amount'', JNumber NaN),
                     (''date'', JString ''2024-01-15''), (''currency'', JString ''USD'')]"
  have n: "\<not> nullish ?p" "\<not> nullish ?q" by (simp_all add: nullish_def)
  have i: "truthy (field ?p ''uetr'') \<or> truthy (field ?p ''ref'')"
          "truthy (field ?q ''uetr'') \<or> truthy (field ?q ''ref'')" by simp_all
  have a: "field ?p ''amount'' = JNumber (Finite (- 5))" "field ?q ''amount'' = JNumber NaN"
    by simp_all
  have d: "truthy (field ?p ''date'')" "truthy (field ?q ''date'')" by simp_all
  have c: "truthy (field ?p ''currency'')" "truthy (field ?q ''currency'')" by simp_all
  have v: "Finite (- 5) \<noteq> NaN" "Finite (- 5) \<noteq> Finite 0" by simp_all
  from track_amount_check [OF n(1) i(1) a(1) d(1) c(1), of "stub_runtime []" default_client "[]"]
       v stub_resolves_default [of "[]" "''/api/track''"]
  have t1: "track (stub_runtime []) default_client ?p []
              = request (stub_runtime []) default_client ''POST'' ''/api/track'' ?p []"
   and t2: "length (issued (track (stub_runtime []) default_client ?p [])) = 1"
    by blast+
  from track_amount_check [OF n(2) i(2) a(2) d(2) c(2), of "stub_runtime []" default_client "[]"]
  have t3: "track (stub_runtime []) default_client ?q []
              = throw (Error ''amount, date, and currency are required'')"
    by blast
  from t1 t2 t3 show ?thesis by blast
qed

text \<open>
  C9 as stated fails at an amount of \<open>0\<close>: the call supplies \<open>uetr\<close>, \<open>amount\<close>,
  \<open>date\<close> and \<open>currency\<close>, and track rejects it locally and issues nothing.
\<close>

theorem track_amount_zero_counterexample:
  "field (JObject [(''uetr'', JString ''97ed4827-7b6f-4491-a06f-b548d5a7512d''),
                   (''amount'', JNumber (Finite 0)),
                   (''date'', JString ''2024-01-15''), (''currency'', JString ''USD'')]) ''amount''
     = JNumber (Finite 0)
   \<and> track (stub_runtime []) default_client
        (JObject [(''uetr'', JString ''97ed4827-7b6f-4491-a06f-b548d5a7512d''),
                  (''amount'', JNumber (Finite 0)),
                  (''date'', JString ''2024-01-15''), (''currency'', JString ''USD'')]) []
       = throw (Error ''amount, date, and currency are required'')
   \<and> issued (track (stub_runtime []) default_client
        (JObject [(''uetr'', JString ''97ed4827-7b6f-4491-a06f-b548d5a7512d''),
                  (''amount'', JNumber (Finite 0)),
                  (''date'', JString ''2024-01-15''), (''currency'', JString ''USD'')]) []) = []"
  by (simp add: track_def nullish_def js_not_def throw_def)

end
